theory Spec2Isabelle
  imports Complex_Main "HOL-Library.Word"
begin

section \<open>Python values used by app.py\<close>

text \<open>
  A Python \<open>str\<close> is a sequence of Unicode code points. The labels built by
  \<open>format_time_simple\<close> contain U+6642 and U+5206, which do not fit the 8-bit characters
  of HOL's \<open>string\<close>, so a Python string is a list of code points. \<open>str\<close> embeds an
  ASCII literal.
\<close>

type_synonym pystr = "nat list"

definition str :: "string \<Rightarrow> pystr" where
  "str s = map of_char s"

text \<open>The exceptions that the modelled library calls raise.\<close>

datatype error = ValueError | OverflowError

text \<open>
  \<open>datetime.date\<close> and its subclass \<open>datetime.datetime\<close>. The fields are the
  non-negative integers the constructors accept; \<open>microsecond\<close> and \<open>tzinfo\<close> are
  never read by app.py and are left out.
\<close>

record date =
  year :: nat
  month :: nat
  day :: nat

record datetime = date +
  hour :: nat
  minute :: nat
  second :: nat

definition MINYEAR :: nat where "MINYEAR = 1"
definition MAXYEAR :: nat where "MAXYEAR = 9999"

definition is_leap :: "nat \<Rightarrow> bool" where
  "is_leap y = (y mod 4 = 0 \<and> (y mod 100 \<noteq> 0 \<or> y mod 400 = 0))"

definition days_in_month :: "nat \<Rightarrow> nat \<Rightarrow> nat" where
  "days_in_month y m =
     (if m = 2 then (if is_leap y then 29 else 28)
      else if m = 4 \<or> m = 6 \<or> m = 9 \<or> m = 11 then 30 else 31)"

definition valid_date :: "'a date_scheme \<Rightarrow> bool" where
  "valid_date d =
     (MINYEAR \<le> year d \<and> year d \<le> MAXYEAR \<and> 1 \<le> month d \<and> month d \<le> 12 \<and>
      1 \<le> day d \<and> day d \<le> days_in_month (year d) (month d))"

definition valid_datetime :: "datetime \<Rightarrow> bool" where
  "valid_datetime t = (valid_date t \<and> hour t \<le> 23 \<and> minute t \<le> 59 \<and> second t \<le> 59)"

text \<open>\<open>datetime(y, mo, d, h, mi, s)\<close>: the constructor raises ValueError out of range.\<close>

definition datetime_new :: "nat \<Rightarrow> nat \<Rightarrow> nat \<Rightarrow> nat \<Rightarrow> nat \<Rightarrow> nat \<Rightarrow> error + datetime" where
  "datetime_new y mo d h mi s =
     (let t = \<lparr>year = y, month = mo, day = d, hour = h, minute = mi, second = s\<rparr>
      in if valid_datetime t then Inr t else Inl ValueError)"

text \<open>\<open>datetime.date()\<close>.\<close>

definition date_of :: "datetime \<Rightarrow> date" where
  "date_of t = \<lparr>year = year t, month = month t, day = day t\<rparr>"

subsection \<open>Decimal digits and integer formatting\<close>

text \<open>
  \<open>str(n)\<close> of a non-negative integer, and the format specification \<open>0wd\<close>
  (zero-padding on the left up to width \<open>w\<close>; longer texts are kept whole).
\<close>

fun str_of_nat :: "nat \<Rightarrow> pystr" where
  "str_of_nat n = (if n < 10 then [48 + n] else str_of_nat (n div 10) @ [48 + n mod 10])"

declare str_of_nat.simps [simp del]

definition zero_pad :: "nat \<Rightarrow> nat \<Rightarrow> pystr" where
  "zero_pad w n = replicate (w - length (str_of_nat n)) 48 @ str_of_nat n"

text \<open>
  The regular expressions of \<open>_strptime\<close> are compiled for \<open>str\<close>, where \<open>\d\<close> matches
  every Unicode decimal digit and \<open>int\<close> reads every such digit. The table of the
  decimal digits beyond ASCII belongs to the Python runtime, not to this repository: it
  is the parameter \<open>nd\<close> (code point to digit value) of everything that parses.
\<close>

type_synonym digit_table = "nat \<Rightarrow> nat option"

definition decimal_digit :: "digit_table \<Rightarrow> nat \<Rightarrow> nat option" where
  "decimal_digit nd c = (if 48 \<le> c \<and> c \<le> 57 then Some (c - 48) else nd c)"

definition is_digit :: "digit_table \<Rightarrow> nat \<Rightarrow> bool" where
  "is_digit nd c = (decimal_digit nd c \<noteq> None)"

definition ascii_range :: "nat \<Rightarrow> nat \<Rightarrow> nat \<Rightarrow> bool" where
  "ascii_range lo hi c = (lo \<le> c \<and> c \<le> hi)"

text \<open>\<open>int(s)\<close> on a text of decimal digits; \<open>None\<close> is its ValueError.\<close>

fun int_digits :: "digit_table \<Rightarrow> nat \<Rightarrow> pystr \<Rightarrow> nat option" where
  "int_digits nd acc [] = Some acc"
| "int_digits nd acc (c # cs) =
     (case decimal_digit nd c of None \<Rightarrow> None | Some v \<Rightarrow> int_digits nd (10 * acc + v) cs)"

definition py_int :: "digit_table \<Rightarrow> pystr \<Rightarrow> nat option" where
  "py_int nd s = (if s = [] then None else int_digits nd 0 s)"

section \<open>strptime with the format \<open>%H:%M:%S\<close>\<close>

text \<open>
  \<open>_strptime\<close> turns the format into the regular expression
  \<^verbatim>\<open>(?P<H>2[0-3]|[0-1]\d|\d):(?P<M>[0-5]\d|\d):(?P<S>6[0-1]|[0-5]\d|\d)\<close>
  and applies \<open>match\<close> at the start of the text. A matcher returns the ways it can match
  a prefix, as (matched text, remaining text), in the order the backtracking engine
  tries them; the first complete combination is the match that \<open>re\<close> reports.
\<close>

fun re_two :: "(nat \<Rightarrow> bool) \<Rightarrow> (nat \<Rightarrow> bool) \<Rightarrow> pystr \<Rightarrow> (pystr \<times> pystr) list" where
  "re_two p q (a # b # r) = (if p a \<and> q b then [([a, b], r)] else [])"
| "re_two p q [a] = []"
| "re_two p q [] = []"

fun re_one :: "(nat \<Rightarrow> bool) \<Rightarrow> pystr \<Rightarrow> (pystr \<times> pystr) list" where
  "re_one p (a # r) = (if p a then [([a], r)] else [])"
| "re_one p [] = []"

definition re_H :: "digit_table \<Rightarrow> pystr \<Rightarrow> (pystr \<times> pystr) list" where
  "re_H nd s =
     re_two (\<lambda>c. c = 50) (ascii_range 48 51) s @
     re_two (ascii_range 48 49) (is_digit nd) s @
     re_one (is_digit nd) s"

definition re_M :: "digit_table \<Rightarrow> pystr \<Rightarrow> (pystr \<times> pystr) list" where
  "re_M nd s = re_two (ascii_range 48 53) (is_digit nd) s @ re_one (is_digit nd) s"

definition re_S :: "digit_table \<Rightarrow> pystr \<Rightarrow> (pystr \<times> pystr) list" where
  "re_S nd s =
     re_two (\<lambda>c. c = 54) (ascii_range 48 49) s @
     re_two (ascii_range 48 53) (is_digit nd) s @
     re_one (is_digit nd) s"

definition re_colon :: "pystr \<Rightarrow> (pystr \<times> pystr) list" where
  "re_colon s = re_one (\<lambda>c. c = 58) s"

definition time_re_match :: "digit_table \<Rightarrow> pystr \<Rightarrow> (pystr \<times> pystr \<times> pystr \<times> pystr) list" where
  "time_re_match nd s =
     List.bind (re_H nd s) (\<lambda>(h, r1).
     List.bind (re_colon r1) (\<lambda>(c1, r2).
     List.bind (re_M nd r2) (\<lambda>(m, r3).
     List.bind (re_colon r3) (\<lambda>(c2, r4).
     List.bind (re_S nd r4) (\<lambda>(sec, r5). [(h, m, sec, r5)])))))"

text \<open>
  \<open>datetime.strptime(time_str, "%H:%M:%S")\<close>: no match, or text left after the match
  (\<open>unconverted data remains\<close>), is a ValueError; the fields are read with \<open>int\<close> and
  given to the constructor with the default date 1900-01-01, which rejects the seconds
  60 and 61 that the expression lets through.
\<close>

definition strptime :: "digit_table \<Rightarrow> pystr \<Rightarrow> error + datetime" where
  "strptime nd time_str =
     (case time_re_match nd time_str of
        [] \<Rightarrow> Inl ValueError
      | (h, m, sec, rest) # others \<Rightarrow>
          if rest \<noteq> [] then Inl ValueError
          else (case (py_int nd h, py_int nd m, py_int nd sec) of
                  (Some hh, Some mm, Some ss) \<Rightarrow> datetime_new 1900 1 1 hh mm ss
                | _ \<Rightarrow> Inl ValueError))"

section \<open>format\_time\_simple\<close>

text \<open>
  \<^verbatim>\<open>
  def format_time_simple(time_str):
      try:
          time_obj = datetime.strptime(time_str, "%H:%M:%S")
          hour = time_obj.hour
          minute = time_obj.minute
          return f"{hour}<U+6642>{minute:02d}<U+5206>"
      except:
          return time_str
  \<close>
\<close>

definition u6642 :: nat where "u6642 = 0x6642"
definition u5206 :: nat where "u5206 = 0x5206"

definition time_label :: "nat \<Rightarrow> nat \<Rightarrow> pystr" where
  "time_label h m = str_of_nat h @ [u6642] @ zero_pad 2 m @ [u5206]"

definition format_time_simple :: "digit_table \<Rightarrow> pystr \<Rightarrow> pystr" where
  "format_time_simple nd time_str =
     (case strptime nd time_str of
        Inr time_obj \<Rightarrow> time_label (hour time_obj) (minute time_obj)
      | Inl e \<Rightarrow> time_str)"

section \<open>Calendar arithmetic of \<open>datetime\<close>\<close>

text \<open>
  The day before and the day after a calendar date. \<open>date - timedelta(days=n)\<close> moves
  \<open>n\<close> days back and raises OverflowError when it leaves \<open>date.min\<close> = 0001-01-01;
  adding days raises it beyond \<open>date.max\<close> = 9999-12-31.
\<close>

definition prev_day :: "date \<Rightarrow> date" where
  "prev_day d =
     (if 1 < day d then d\<lparr>day := day d - 1\<rparr>
      else if 1 < month d
        then d\<lparr>month := month d - 1, day := days_in_month (year d) (month d - 1)\<rparr>
      else \<lparr>year = year d - 1, month = 12, day = 31\<rparr>)"

definition next_day :: "date \<Rightarrow> date" where
  "next_day d =
     (if day d < days_in_month (year d) (month d) then d\<lparr>day := day d + 1\<rparr>
      else if month d < 12 then d\<lparr>month := month d + 1, day := 1\<rparr>
      else \<lparr>year = year d + 1, month = 1, day = 1\<rparr>)"

definition date_min :: date where
  "date_min = \<lparr>year = MINYEAR, month = 1, day = 1\<rparr>"

definition date_max :: date where
  "date_max = \<lparr>year = MAXYEAR, month = 12, day = 31\<rparr>"

fun date_sub_days :: "date \<Rightarrow> nat \<Rightarrow> error + date" where
  "date_sub_days d 0 = Inr d"
| "date_sub_days d (Suc n) =
     (if d = date_min then Inl OverflowError else date_sub_days (prev_day d) n)"

fun date_add_days :: "date \<Rightarrow> nat \<Rightarrow> error + date" where
  "date_add_days d 0 = Inr d"
| "date_add_days d (Suc n) =
     (if d = date_max then Inl OverflowError else date_add_days (next_day d) n)"

text \<open>The order of calendar dates (\<open>date.__lt__\<close> compares year, month, day).\<close>

definition date_less :: "date \<Rightarrow> date \<Rightarrow> bool" where
  "date_less a b =
     (year a < year b \<or> (year a = year b \<and>
        (month a < month b \<or> (month a = month b \<and> day a < day b))))"

text \<open>\<open>strftime("%Y-%m-%d")\<close> of a date or datetime: four, two and two digits.\<close>

definition strftime_ymd :: "'a date_scheme \<Rightarrow> pystr" where
  "strftime_ymd d = zero_pad 4 (year d) @ [45] @ zero_pad 2 (month d) @ [45] @ zero_pad 2 (day d)"

section \<open>The clock\<close>

text \<open>
  \<^verbatim>\<open>
  JST = timezone(timedelta(hours=9))

  def get_japan_time():
      return datetime.now(JST)
  \<close>
  \<open>datetime.now(tz)\<close> reads the system clock and shifts the UTC time by the offset of
  \<open>tz\<close>. The reading of the system clock, as a UTC date and time of day, is the
  argument \<open>clock\<close> of every function that reaches \<open>get_japan_time\<close>. A time zone is
  its offset in seconds east of UTC.
\<close>

definition JST :: nat where
  "JST = 9 * 3600"

definition datetime_now :: "nat \<Rightarrow> datetime \<Rightarrow> error + datetime" where
  "datetime_now tz clock =
     (let secs = hour clock * 3600 + minute clock * 60 + second clock + tz
      in case date_add_days (date_of clock) (secs div 86400) of
           Inl e \<Rightarrow> Inl e
         | Inr d \<Rightarrow> Inr \<lparr>year = year d, month = month d, day = day d,
                       hour = secs mod 86400 div 3600,
                       minute = secs mod 3600 div 60,
                       second = secs mod 60\<rparr>)"

definition get_japan_time :: "datetime \<Rightarrow> error + datetime" where
  "get_japan_time clock = datetime_now JST clock"

section \<open>Records and aggregation\<close>

text \<open>
  A record of \<open>worksheet.get_all_records()\<close> is a dict from column names to cells; a
  cell is a \<open>str\<close>, or an \<open>int\<close> or a \<open>float\<close> where the sheet holds a number.
\<close>

datatype cell = CStr pystr | CInt int | CFloat "64 word"

type_synonym pyrecord = "pystr \<rightharpoonup> cell"

text \<open>
  \<^verbatim>\<open>
  def get_today_pee_count(pee_data):
      today = get_japan_time().strftime("%Y-%m-%d")
      return len([r for r in pee_data if r.get("date") == today])
  \<close>
\<close>

definition get_today_pee_count :: "datetime \<Rightarrow> pyrecord list \<Rightarrow> error + int" where
  "get_today_pee_count clock pee_data =
     (case get_japan_time clock of
        Inl e \<Rightarrow> Inl e
      | Inr now \<Rightarrow>
          (let today = strftime_ymd now
           in Inr (int (length (filter (\<lambda>r. r (str ''date'') = Some (CStr today)) pee_data)))))"

text \<open>
  A Python dict keeps its keys in insertion order: \<open>weekly_data\<close> is an association
  list. \<open>d[k] = v\<close> overwrites the value of a present key in place and appends an absent
  one.
\<close>

type_synonym weekly = "(pystr \<times> int) list"

fun dict_set :: "weekly \<Rightarrow> pystr \<Rightarrow> int \<Rightarrow> weekly" where
  "dict_set [] k v = [(k, v)]"
| "dict_set ((k', v') # d) k v = (if k' = k then (k', v) # d else (k', v') # dict_set d k v)"

text \<open>
  \<^verbatim>\<open>
  def get_weekly_pee_data(pee_data):
      today = get_japan_time().date()
      weekly_data = {}
      for i in range(6, -1, -1):
          date = (today - timedelta(days=i)).strftime("%Y-%m-%d")
          weekly_data[date] = 0
      for record in pee_data:
          date = record.get("date", "")
          if date in weekly_data:
              weekly_data[date] += 1
      return weekly_data
  \<close>
  The first loop is \<open>seed_days\<close> over the values of \<open>range(6, -1, -1)\<close>, the body of the
  second is \<open>count_record\<close>. A cell that is not a \<open>str\<close> is equal to no key.
\<close>

fun seed_days :: "date \<Rightarrow> nat list \<Rightarrow> weekly \<Rightarrow> error + weekly" where
  "seed_days today [] weekly_data = Inr weekly_data"
| "seed_days today (i # is) weekly_data =
     (case date_sub_days today i of
        Inl e \<Rightarrow> Inl e
      | Inr d \<Rightarrow> seed_days today is (dict_set weekly_data (strftime_ymd d) 0))"

definition count_record :: "weekly \<Rightarrow> pyrecord \<Rightarrow> weekly" where
  "count_record weekly_data record =
     (let date = (case record (str ''date'') of None \<Rightarrow> CStr [] | Some v \<Rightarrow> v)
      in case date of
           CStr s \<Rightarrow> (case map_of weekly_data s of
                        Some c \<Rightarrow> dict_set weekly_data s (c + 1)
                      | None \<Rightarrow> weekly_data)
         | _ \<Rightarrow> weekly_data)"

definition get_weekly_pee_data :: "datetime \<Rightarrow> pyrecord list \<Rightarrow> error + weekly" where
  "get_weekly_pee_data clock pee_data =
     (case get_japan_time clock of
        Inl e \<Rightarrow> Inl e
      | Inr now \<Rightarrow>
          (case seed_days (date_of now) [6, 5, 4, 3, 2, 1, 0] [] of
             Inl e \<Rightarrow> Inl e
           | Inr weekly_data \<Rightarrow> Inr (foldl count_record weekly_data pee_data)))"

text \<open>
  The weekly statistics of the first tab:
  \<^verbatim>\<open>
  st.metric(..., f"{sum(weekly_data.values())} ...")
  avg = sum(weekly_data.values()) / 7
  \<close>
  The quotient is taken as the exact rational number.
\<close>

definition weekly_total :: "weekly \<Rightarrow> int" where
  "weekly_total weekly_data = sum_list (map snd weekly_data)"

definition weekly_avg :: "weekly \<Rightarrow> rat" where
  "weekly_avg weekly_data = of_int (weekly_total weekly_data) / 7"

section \<open>Properties of the time label\<close>

lemma str_of_nat_one: "n < 10 \<Longrightarrow> str_of_nat n = [48 + n]"
  by (simp add: str_of_nat.simps)

lemma str_of_nat_two: "10 \<le> n \<Longrightarrow> n < 100 \<Longrightarrow> str_of_nat n = [48 + n div 10, 48 + n mod 10]"
  by (subst str_of_nat.simps) (simp add: str_of_nat_one)

lemma zero_pad_2: "n < 100 \<Longrightarrow> zero_pad 2 n = [48 + n div 10, 48 + n mod 10]"
  by (cases "n < 10") (simp_all add: zero_pad_def str_of_nat_one str_of_nat_two)

lemma strptime_fields:
  assumes "strptime nd s = Inr t"
  shows "hour t \<le> 23 \<and> minute t \<le> 59 \<and> second t \<le> 59"
  using assms
  by (auto simp: strptime_def datetime_new_def valid_datetime_def Let_def
           split: list.splits if_splits option.splits prod.splits)

lemma time_re_match_no_colon:
  "b \<noteq> 58 \<Longrightarrow> c \<noteq> 58 \<Longrightarrow> time_re_match nd (a # b # c # r) = []"
  by (simp add: time_re_match_def re_H_def re_colon_def List.bind_def)

lemma time_label_explicit:
  "h \<le> 23 \<Longrightarrow> m \<le> 59 \<Longrightarrow>
   time_label h m =
     (if h < 10 then [48 + h] else [48 + h div 10, 48 + h mod 10]) @
     [u6642, 48 + m div 10, 48 + m mod 10, u5206]"
  by (simp add: time_label_def str_of_nat_one str_of_nat_two zero_pad_2)

lemma strptime_time_label:
  "h \<le> 23 \<Longrightarrow> m \<le> 59 \<Longrightarrow> strptime nd (time_label h m) = Inl ValueError"
  by (simp add: time_label_explicit strptime_def time_re_match_no_colon u6642_def)

lemma int_digits_two:
  "a < 10 \<Longrightarrow> b < 10 \<Longrightarrow> py_int nd [48 + a, 48 + b] = Some (10 * a + b)"
  by (simp add: py_int_def decimal_digit_def)

lemma is_digit_ascii: "a < 10 \<Longrightarrow> is_digit nd (48 + a)"
  by (simp add: is_digit_def decimal_digit_def)

lemma re_H_digits:
  "10 * a + b < 24 \<Longrightarrow> b < 10 \<Longrightarrow> re_H nd ((48 + a) # (48 + b) # r) =
     [([48 + a, 48 + b], r), ([48 + a], (48 + b) # r)]"
  by (auto simp: re_H_def ascii_range_def is_digit_ascii)

lemma re_M_digits:
  "10 * a + b < 60 \<Longrightarrow> b < 10 \<Longrightarrow> re_M nd ((48 + a) # (48 + b) # r) =
     [([48 + a, 48 + b], r), ([48 + a], (48 + b) # r)]"
  by (auto simp: re_M_def ascii_range_def is_digit_ascii)

lemma re_S_digits:
  "10 * a + b < 60 \<Longrightarrow> b < 10 \<Longrightarrow> re_S nd ((48 + a) # (48 + b) # r) =
     [([48 + a, 48 + b], r), ([48 + a], (48 + b) # r)]"
  by (auto simp: re_S_def ascii_range_def is_digit_ascii)

lemma re_colon_simps:
  "re_colon (58 # r) = [([58], r)]" "b < 10 \<Longrightarrow> re_colon ((48 + b) # r) = []" "re_colon [] = []"
  by (simp_all add: re_colon_def)

lemma time_re_match_digits:
  assumes "10 * a + b < 24" "10 * c + d < 60" "10 * e + f < 60" "b < 10" "d < 10" "f < 10"
  shows "time_re_match nd ([48 + a, 48 + b] @ [58] @ [48 + c, 48 + d] @ [58] @ [48 + e, 48 + f]) =
     [([48 + a, 48 + b], [48 + c, 48 + d], [48 + e, 48 + f], []),
      ([48 + a, 48 + b], [48 + c, 48 + d], [48 + e], [48 + f])]"
  using assms
  by (simp add: time_re_match_def re_H_digits re_M_digits re_S_digits re_colon_simps List.bind_def)

lemma strptime_digits:
  assumes "10 * a + b < 24" "10 * c + d < 60" "10 * e + f < 60" "b < 10" "d < 10" "f < 10"
  shows "strptime nd ([48 + a, 48 + b] @ [58] @ [48 + c, 48 + d] @ [58] @ [48 + e, 48 + f]) =
     Inr \<lparr>year = 1900, month = 1, day = 1, hour = 10 * a + b, minute = 10 * c + d, second = 10 * e + f\<rparr>"
proof -
  have "a < 10" "c < 10" "e < 10" using assms by simp_all
  then show ?thesis
    using assms
    by (simp add: strptime_def time_re_match_digits int_digits_two datetime_new_def
        valid_datetime_def valid_date_def MINYEAR_def MAXYEAR_def days_in_month_def
        del: append.simps)
qed

lemma strptime_canonical:
  assumes "h < 24" "m < 60" "s < 60"
  shows "strptime nd (zero_pad 2 h @ [58] @ zero_pad 2 m @ [58] @ zero_pad 2 s) =
     Inr \<lparr>year = 1900, month = 1, day = 1, hour = h, minute = m, second = s\<rparr>"
  using assms strptime_digits [of "h div 10" "h mod 10" "m div 10" "m mod 10" "s div 10" "s mod 10" nd]
  by (simp add: zero_pad_2)


lemma strptime_not_a_time: "strptime nd (str ''not-a-time'') = Inl ValueError"
  by (simp add: strptime_def str_def time_re_match_no_colon)

text \<open>
  C5. Whenever \<open>strptime\<close> accepts the text, \<open>format_time_simple\<close> returns the hour as
  \<open>str\<close> prints it, U+6642, the minute on two digits and U+5206. Every text
  \<open>HH:MM:SS\<close> with \<open>HH < 24\<close>, \<open>MM < 60\<close> and \<open>SS < 60\<close> is accepted and gives the
  label with a one-digit hour below ten; 16:10:00 and 09:05:00 give the labels of the
  specification.
\<close>

theorem format_time_simple_label:
  "(strptime nd time_str = Inr t \<longrightarrow>
      format_time_simple nd time_str =
        str_of_nat (hour t) @ [0x6642] @ zero_pad 2 (minute t) @ [0x5206] \<and>
      length (str_of_nat (hour t)) = (if hour t < 10 then 1 else 2) \<and>
      length (zero_pad 2 (minute t)) = 2) \<and>
   (h < 24 \<and> m < 60 \<and> s < 60 \<longrightarrow>
      format_time_simple nd (zero_pad 2 h @ [58] @ zero_pad 2 m @ [58] @ zero_pad 2 s) =
        (if h < 10 then [48 + h] else [48 + h div 10, 48 + h mod 10]) @
        [0x6642, 48 + m div 10, 48 + m mod 10, 0x5206]) \<and>
   format_time_simple nd (str ''16:10:00'') = str ''16'' @ [0x6642] @ str ''10'' @ [0x5206] \<and>
   format_time_simple nd (str ''09:05:00'') = str ''9'' @ [0x6642] @ str ''05'' @ [0x5206]"
proof (intro conjI impI)
  assume p: "strptime nd time_str = Inr t"
  then show "format_time_simple nd time_str =
      str_of_nat (hour t) @ [0x6642] @ zero_pad 2 (minute t) @ [0x5206]"
    by (simp add: format_time_simple_def time_label_def u6642_def u5206_def)
  from strptime_fields [OF p] show "length (str_of_nat (hour t)) = (if hour t < 10 then 1 else 2)"
    by (simp add: str_of_nat_one str_of_nat_two)
  from strptime_fields [OF p] show "length (zero_pad 2 (minute t)) = 2"
    by (simp add: zero_pad_2)
next
  assume "h < 24 \<and> m < 60 \<and> s < 60"
  then show "format_time_simple nd (zero_pad 2 h @ [58] @ zero_pad 2 m @ [58] @ zero_pad 2 s) =
        (if h < 10 then [48 + h] else [48 + h div 10, 48 + h mod 10]) @
        [0x6642, 48 + m div 10, 48 + m mod 10, 0x5206]"
    by (simp add: format_time_simple_def strptime_canonical time_label_explicit
          u6642_def u5206_def del: append.simps)
next
  have "str ''16:10:00'' = zero_pad 2 16 @ [58] @ zero_pad 2 10 @ [58] @ zero_pad 2 0"
    by (simp add: str_def zero_pad_2)
  then show "format_time_simple nd (str ''16:10:00'') =
      str ''16'' @ [0x6642] @ str ''10'' @ [0x5206]"
    by (simp add: format_time_simple_def strptime_canonical time_label_explicit
          u6642_def u5206_def str_def del: append.simps)
next
  have "str ''09:05:00'' = zero_pad 2 9 @ [58] @ zero_pad 2 5 @ [58] @ zero_pad 2 0"
    by (simp add: str_def zero_pad_2)
  then show "format_time_simple nd (str ''09:05:00'') =
      str ''9'' @ [0x6642] @ str ''05'' @ [0x5206]"
    by (simp add: format_time_simple_def strptime_canonical time_label_explicit
          u6642_def u5206_def str_def del: append.simps)
qed

theorem format_time_simple_label_witness:
  "strptime (\<lambda>c. None) (str ''07:08:09'') =
     Inr \<lparr>year = 1900, month = 1, day = 1, hour = 7, minute = 8, second = 9\<rparr> \<and>
   (7::nat) < 24 \<and> (8::nat) < 60 \<and> (9::nat) < 60 \<and>
   format_time_simple (\<lambda>c. None) (str ''07:08:09'') = [55, 0x6642, 48, 56, 0x5206]"
proof -
  have e: "str ''07:08:09'' = zero_pad 2 7 @ [58] @ zero_pad 2 8 @ [58] @ zero_pad 2 9"
    by (simp add: str_def zero_pad_2)
  have p: "strptime (\<lambda>c. None) (str ''07:08:09'') =
      Inr \<lparr>year = 1900, month = 1, day = 1, hour = 7, minute = 8, second = 9\<rparr>"
    unfolding e by (rule strptime_canonical) simp_all
  have "format_time_simple (\<lambda>c. None) (str ''07:08:09'') = [55, 0x6642, 48, 56, 0x5206]"
    using format_time_simple_label
      [of "\<lambda>c. None" "str ''07:08:09''"
          "\<lparr>year = 1900, month = 1, day = 1, hour = 7, minute = 8, second = 9\<rparr>" 7 8 9] p
    by (simp add: str_of_nat_one zero_pad_2)
  with p show ?thesis by simp
qed

text \<open>
  C6. A text that \<open>strptime\<close> rejects is returned as it is, and so is the result of
  formatting it again; \<open>format_time_simple\<close> itself returns a string on every input, its
  \<open>except\<close> clause catching every exception. The text not-a-time is such an input.
\<close>

theorem format_time_simple_invalid:
  "((\<forall>t. strptime nd time_str \<noteq> Inr t) \<longrightarrow>
      format_time_simple nd time_str = time_str \<and>
      format_time_simple nd (format_time_simple nd time_str) = time_str) \<and>
   format_time_simple nd (str ''not-a-time'') = str ''not-a-time''"
proof (intro conjI impI)
  assume a: "\<forall>t. strptime nd time_str \<noteq> Inr t"
  then show r: "format_time_simple nd time_str = time_str"
    by (cases "strptime nd time_str") (simp_all add: format_time_simple_def)
  then show "format_time_simple nd (format_time_simple nd time_str) = time_str"
    by simp
next
  show "format_time_simple nd (str ''not-a-time'') = str ''not-a-time''"
    by (simp add: format_time_simple_def strptime_not_a_time)
qed

theorem format_time_simple_invalid_witness:
  "(\<forall>t. strptime (\<lambda>c. None) (str ''24:00:00'') \<noteq> Inr t) \<and>
   format_time_simple (\<lambda>c. None) (str ''24:00:00'') = str ''24:00:00''"
proof -
  have p: "strptime (\<lambda>c. None) (str ''24:00:00'') = Inl ValueError"
    by (simp add: strptime_def time_re_match_def re_H_def re_colon_def List.bind_def
          str_def ascii_range_def)
  then have a: "\<forall>t. strptime (\<lambda>c. None) (str ''24:00:00'') \<noteq> Inr t"
    by simp
  from format_time_simple_invalid [of "\<lambda>c. None" "str ''24:00:00''"] a
  show ?thesis by blast
qed

text \<open>
  C9. Formatting twice is formatting once, on every text: a label produced from an
  accepted text has no colon after its first one or two characters, so \<open>strptime\<close>
  rejects it and the second application returns it unchanged.
\<close>

theorem format_time_simple_idempotent:
  "format_time_simple nd (format_time_simple nd time_str) = format_time_simple nd time_str"
proof (cases "strptime nd time_str")
  case (Inl e)
  then show ?thesis by (simp add: format_time_simple_def)
next
  case (Inr t)
  from strptime_fields [OF Inr]
  have "strptime nd (time_label (hour t) (minute t)) = Inl ValueError"
    by (simp add: strptime_time_label)
  with Inr show ?thesis by (simp add: format_time_simple_def)
qed

theorem format_time_simple_idempotent_witness:
  "format_time_simple (\<lambda>c. None) (format_time_simple (\<lambda>c. None) (str ''16:10:00'')) =
   format_time_simple (\<lambda>c. None) (str ''16:10:00'')"
  by (rule format_time_simple_idempotent)

end
